theory Spec2Isabelle
  imports Complex_Main
begin

section \<open>The Bankin konnector: a shallow embedding of \<open>src/index.js\<close>\<close>

text \<open>
  The konnector is one JavaScript module. Its functions are embedded one by one, under
  their own names. Collaborators that the module only calls (the HTTP \<open>request\<close>, the
  reconciliator, \<open>cozyClient.data\<close>, \<open>updateOrCreate\<close>, the clock) are parameters of
  the functions that call them. JavaScript numbers are carried around but never computed
  with, so a balance or an amount is a \<^typ>\<open>real\<close>.
\<close>

subsection \<open>Promises\<close>

text \<open>
  What a thrown value can be: an \<open>Error\<close> with a message, or a failure of the HTTP
  library (a status code the library rejects, or a transport failure with its cause).
\<close>

datatype exn = Error string | StatusCodeError nat | RequestError string

text \<open>
  The state in which a promise ends up: fulfilled with a value, rejected with a thrown
  value, or never settled.
\<close>

datatype 'a promise = Fulfilled 'a | Rejected exn | Pending

text \<open>\<open>const x = await p; rest\<close> inside an \<open>async\<close> function.\<close>

definition await :: "'a promise \<Rightarrow> ('a \<Rightarrow> 'b promise) \<Rightarrow> 'b promise" where
  "await p rest = (case p of Fulfilled v \<Rightarrow> rest v | Rejected e \<Rightarrow> Rejected e | Pending \<Rightarrow> Pending)"

fun first_rejection :: "'a promise list \<Rightarrow> exn option" where
  "first_rejection [] = None"
| "first_rejection (Rejected e # ps) = Some e"
| "first_rejection (p # ps) = first_rejection ps"

fun fulfilled_values :: "'a promise list \<Rightarrow> 'a list option" where
  "fulfilled_values [] = Some []"
| "fulfilled_values (Fulfilled v # ps) =
     (case fulfilled_values ps of Some vs \<Rightarrow> Some (v # vs) | None \<Rightarrow> None)"
| "fulfilled_values (p # ps) = None"

text \<open>
  \<open>Promise.all\<close>: rejected as soon as one member is rejected, fulfilled with all the
  values, in order, when every member is fulfilled, and pending otherwise. (When several
  members are rejected JavaScript reports the one rejected first in time; the model
  reports the first in the list.)
\<close>

definition Promise_all :: "'a promise list \<Rightarrow> 'a list promise" where
  "Promise_all ps =
     (case first_rejection ps of
        Some e \<Rightarrow> Rejected e
      | None \<Rightarrow> (case fulfilled_values ps of Some vs \<Rightarrow> Fulfilled vs | None \<Rightarrow> Pending))"

subsection \<open>Balance histories\<close>

text \<open>
  An \<open>io.cozy.bank.balancehistories\<close> document. \<open>doc_id\<close> is the \<open>_id\<close> property: a
  document read from the store has one, the literal built by \<open>getEmptyBalanceHistory\<close>
  has none. \<open>balances\<close> is the object indexed by date strings.
\<close>

record metadata =
  version :: int

record account_data =
  data_id :: string
  data_type :: string

record balance_history =
  doc_id :: "string option"
  year :: int
  balances :: "string \<rightharpoonup> real"
  metadata :: metadata
  relationships_account_data :: account_data

text \<open>
  The options of the query in \<open>getBalanceHistory\<close>: the selector has the two
  properties \<open>year\<close> and \<open>'relationships.account.data._id'\<close>.
\<close>

record selector =
  selector_year :: int
  selector_account_id :: string

record query_options =
  selector :: selector
  limit :: nat

record index =
  index_doctype :: string
  index_fields :: "string list"

text \<open>
  \<open>cozyClient.data\<close>: \<open>defineIndex\<close> and \<open>query\<close> belong to the
  cozy-konnector-libs package, and are parameters here.
\<close>

record cozy_data =
  defineIndex :: "string \<Rightarrow> string list \<Rightarrow> index promise"
  query :: "index \<Rightarrow> query_options \<Rightarrow> balance_history list promise"

definition getEmptyBalanceHistory :: "int \<Rightarrow> string \<Rightarrow> balance_history" where
  "getEmptyBalanceHistory y accountId =
     \<lparr> doc_id = None,
       year = y,
       balances = Map.empty,
       metadata = \<lparr> version = 1 \<rparr>,
       relationships_account_data =
         \<lparr> data_id = accountId, data_type = ''io.cozy.bank.accounts'' \<rparr> \<rparr>"

text \<open>
  \<open>const [balance] = await query(...)\<close> takes the first element of the array, and
  \<open>balance\<close> is \<open>undefined\<close> (falsy) when the array is empty; a document is an
  object, hence truthy.
\<close>

definition getBalanceHistory :: "cozy_data \<Rightarrow> int \<Rightarrow> string \<Rightarrow> balance_history promise" where
  "getBalanceHistory data y accountId =
     await (defineIndex data ''io.cozy.bank.balancehistories''
              [''year'', ''relationships.account.data._id''])
       (\<lambda>index.
          let options = \<lparr> selector = \<lparr> selector_year = y, selector_account_id = accountId \<rparr>,
                          limit = 1 \<rparr>
          in await (query data index options)
               (\<lambda>result.
                  case result of
                    balance # _ \<Rightarrow> Fulfilled balance
                  | [] \<Rightarrow> Fulfilled (getEmptyBalanceHistory y accountId)))"

text \<open>
  The clock: \<open>moment()\<close>, of which \<open>fetchBalances\<close> reads \<open>format('YYYY-MM-DD')\<close>
  and \<open>year()\<close>.
\<close>

record moment =
  format_YYYY_MM_DD :: string
  moment_year :: int

text \<open>
  An account as the reconciliator returns it: of a saved account \<open>fetchBalances\<close>
  reads \<open>_id\<close> and \<open>balance\<close>.
\<close>

record saved_account =
  account_id :: string
  account_balance :: real

text \<open>The statement \<open>history.balances[todayAsString] = account.balance\<close>.\<close>

definition set_balance :: "balance_history \<Rightarrow> string \<Rightarrow> real \<Rightarrow> balance_history" where
  "set_balance history todayAsString b =
     history\<lparr> balances := (balances history)(todayAsString \<mapsto> b) \<rparr>"

definition fetchBalances ::
  "cozy_data \<Rightarrow> moment \<Rightarrow> saved_account list \<Rightarrow> balance_history list promise" where
  "fetchBalances data now accounts =
     (let todayAsString = format_YYYY_MM_DD now;
          currentYear = moment_year now
      in Promise_all
           (map (\<lambda>account.
                   await (getBalanceHistory data currentYear (account_id account))
                     (\<lambda>history.
                        Fulfilled (set_balance history todayAsString (account_balance account))))
              accounts))"

text \<open>\<open>saveBalances\<close> hands the documents to \<open>updateOrCreate\<close> of cozy-konnector-libs,
  a parameter here, with the doctype and the matching attributes.\<close>

definition saveBalances ::
  "(balance_history list \<Rightarrow> string \<Rightarrow> string list \<Rightarrow> 'r promise) \<Rightarrow> balance_history list \<Rightarrow> 'r promise" where
  "saveBalances updateOrCreate bs = updateOrCreate bs ''io.cozy.bank.balancehistories'' [''_id'']"

subsection \<open>The persistence layer\<close>

text \<open>
  Modelled from the spec: the store behind \<open>cozyClient.data.query\<close> and
  \<open>updateOrCreate\<close> is not part of the repository. The spec (sections 4.2 and 6)
  describes \<open>query(docType, selector, limit)\<close> as returning the list of matching
  documents, the lookup being by equality on \<open>(year, account storage identifier)\<close>,
  and the sink as an upsert keyed by the storage identifier, where new documents get a
  freshly allocated identifier and existing documents keep theirs. The store is the list
  of its balance-history documents, in the order in which a query returns them.
\<close>

definition matches :: "selector \<Rightarrow> balance_history \<Rightarrow> bool" where
  "matches s d \<longleftrightarrow>
     year d = selector_year s \<and> data_id (relationships_account_data d) = selector_account_id s"

text \<open>
  Modelled from the spec: \<open>query\<close> returns the documents that match the selector, in
  the order of the store, and at most \<open>limit\<close> of them.
\<close>

definition store_query :: "balance_history list \<Rightarrow> index \<Rightarrow> query_options \<Rightarrow> balance_history list promise" where
  "store_query store ix options = Fulfilled (take (limit options) (filter (matches (selector options)) store))"

text \<open>
  Modelled from the spec: \<open>cozyClient.data\<close> over a store; \<open>defineIndex\<close> answers with
  the index on the fields it is given.
\<close>

definition store_data :: "balance_history list \<Rightarrow> cozy_data" where
  "store_data store =
     \<lparr> defineIndex = (\<lambda>doctype fields. Fulfilled \<lparr> index_doctype = doctype, index_fields = fields \<rparr>),
       query = store_query store \<rparr>"

text \<open>
  Modelled from the spec: the upsert of one document, keyed by its identifier. A document
  whose identifier is in the store replaces the stored document of that identifier; any
  other document is added, under the identifier that the allocator \<open>fresh\<close> gives.
\<close>

definition upsert :: "(balance_history list \<Rightarrow> string) \<Rightarrow> balance_history \<Rightarrow> balance_history list \<Rightarrow> balance_history list" where
  "upsert fresh d store =
     (if doc_id d \<noteq> None \<and> doc_id d \<in> set (map doc_id store)
      then map (\<lambda>s. if doc_id s = doc_id d then d else s) store
      else store @ [d\<lparr> doc_id := Some (fresh store) \<rparr>])"

text \<open>Modelled from the spec: the sink upserts the documents one after the other.\<close>

definition store_updateOrCreate ::
  "(balance_history list \<Rightarrow> string) \<Rightarrow> balance_history list \<Rightarrow> balance_history list \<Rightarrow> balance_history list" where
  "store_updateOrCreate fresh docs store = fold (upsert fresh) docs store"

subsection \<open>Normalising the vendor's records\<close>

text \<open>A value that a property of a normalised record can hold.\<close>

datatype js_value = JsUndefined | JsNumber int | JsString string

record bank =
  bank_id :: int
  bank_name :: string

record parent_bank =
  parent_bank_banks :: "bank list"

record country =
  parent_banks :: "parent_bank list"

text \<open>
  \<open>formatBanks\<close> fills an object indexed by \<open>bank.id\<close>; a later bank with the same
  id replaces an earlier one.
\<close>

definition formatBanks :: "country list \<Rightarrow> (int \<rightharpoonup> bank)" where
  "formatBanks countries =
     fold (\<lambda>country bs.
             fold (\<lambda>parentBank bs.
                     fold (\<lambda>bank bs. bs(bank_id bank \<mapsto> bank)) (parent_bank_banks parentBank) bs)
               (parent_banks country) bs)
       countries Map.empty"

text \<open>A raw account of the vendor: \<open>name\<close>, \<open>bank.id\<close>, \<open>balance\<close>, \<open>type\<close>, \<open>id\<close>.\<close>

record raw_account =
  raw_account_name :: string
  raw_account_bank_id :: int
  raw_account_balance :: real
  raw_account_type :: string
  raw_account_id :: int

text \<open>
  The table \<open>./account-type-mapping\<close> is a file that is not among the sources: its own
  entries, from type codes to type names, are a parameter. The table is an object, so
  besides its own entries it has the properties that every object inherits from
  \<open>Object.prototype\<close>, under these names.
\<close>

definition Object_prototype :: "string list" where
  "Object_prototype =
     [''constructor'', ''__defineGetter__'', ''__defineSetter__'', ''hasOwnProperty'',
      ''__lookupGetter__'', ''__lookupSetter__'', ''isPrototypeOf'', ''propertyIsEnumerable'',
      ''toString'', ''valueOf'', ''__proto__'', ''toLocaleString'']"

text \<open>
  What \<open>table[k]\<close> can be: the type name of an own entry, the inherited property named
  \<open>k\<close> (a function of \<open>Object.prototype\<close>, or the prototype itself for \<open>__proto__\<close>),
  or \<open>undefined\<close>. The \<open>type\<close> of a normalised account is such a value.
\<close>

datatype type_value = TypeName string | Inherited string | TypeUndefined

text \<open>\<open>k in table\<close>: an own entry, or an inherited property.\<close>

definition has_property :: "(string \<rightharpoonup> string) \<Rightarrow> string \<Rightarrow> bool" where
  "has_property table k =
     (case table k of Some t \<Rightarrow> True | None \<Rightarrow> k \<in> set Object_prototype)"

text \<open>\<open>table[k]\<close>: the own entry first, then the inherited property.\<close>

definition get_property :: "(string \<rightharpoonup> string) \<Rightarrow> string \<Rightarrow> type_value" where
  "get_property table k =
     (case table k of
        Some t \<Rightarrow> TypeName t
      | None \<Rightarrow> if k \<in> set Object_prototype then Inherited k else TypeUndefined)"

record account =
  label :: string
  institutionLabel :: string
  balance :: real
  type :: type_value
  number :: int
  vendorId :: int

text \<open>
  \<open>formatAccounts\<close> reads the module variable \<open>banks\<close>, set by \<open>start\<close>, a parameter
  here. \<open>banks\<close> is the object that \<open>formatBanks\<close> fills, indexed by bank ids: these are
  numbers, and no inherited property has a number for name, so \<open>id in banks\<close> is
  membership among the banks that were stored.
\<close>

definition formatAccounts ::
  "(int \<rightharpoonup> bank) \<Rightarrow> (string \<rightharpoonup> string) \<Rightarrow> raw_account list \<Rightarrow> account list" where
  "formatAccounts banks accountTypeMapping accounts =
     map (\<lambda>a.
            let bank = (case banks (raw_account_bank_id a) of
                          Some b \<Rightarrow> bank_name b
                        | None \<Rightarrow> ''none'')
            in \<lparr> label = raw_account_name a,
                 institutionLabel = bank,
                 balance = raw_account_balance a,
                 type = (if has_property accountTypeMapping (raw_account_type a)
                         then get_property accountTypeMapping (raw_account_type a)
                         else TypeName ''none''),
                 number = raw_account_id a,
                 vendorId = raw_account_id a \<rparr>)
       accounts"

text \<open>
  A raw transaction of the vendor: \<open>category.id\<close>, \<open>date\<close>, \<open>description\<close>,
  \<open>raw_description\<close>, \<open>currency_code\<close>, \<open>account.id\<close>, \<open>id\<close>, \<open>amount\<close>.
\<close>

record raw_operation =
  category_id :: int
  raw_date :: string
  description :: string
  raw_description :: string
  currency_code :: string
  operation_account_id :: int
  operation_id :: int
  raw_amount :: real

text \<open>
  A \<open>Date\<close> object: \<open>new Date(s)\<close> of a string, or \<open>new Date()\<close>, the time of the
  call in milliseconds.
\<close>

datatype js_date = DateOf string | DateAt nat

record transaction =
  date :: js_date
  transaction_label :: string
  originalLabel :: string
  transaction_type :: string
  automaticCategoryId :: js_value
  dateImport :: js_date
  dateOperation :: js_date
  currency :: string
  vendorAccountId :: int
  transaction_vendorId :: int
  amount :: real

text \<open>
  An entry of the table \<open>./operation-category-mapping\<close>, which is not among the sources
  and is a parameter: the partial function that sends a category id \<open>k\<close> to the entry
  \<open>table[k]\<close> when \<open>k in table\<close> holds (category ids are numbers, and no inherited
  property has a number for name). Of an entry \<open>formatOperations\<close> reads the property
  \<open>cozyCategoryId\<close>, which is \<open>undefined\<close> on an entry that has none.
\<close>

record category_entry =
  cozyCategoryId :: js_value

text \<open>
  \<open>formatOperations\<close> evaluates \<open>new Date()\<close> once for each operation, in the order
  of the list: \<open>clock i\<close> is the time at the evaluation for the operation at position
  \<open>i\<close>.
\<close>

definition formatOperations ::
  "(int \<rightharpoonup> category_entry) \<Rightarrow> (nat \<Rightarrow> nat) \<Rightarrow> raw_operation list \<Rightarrow> transaction list" where
  "formatOperations operationCategoryMapping clock operations =
     map (\<lambda>(i, operation).
            let category = (case operationCategoryMapping (category_id operation) of
                              Some entry \<Rightarrow> cozyCategoryId entry
                            | None \<Rightarrow> JsNumber 0)
            in \<lparr> date = DateOf (raw_date operation),
                 transaction_label = description operation,
                 originalLabel = raw_description operation,
                 transaction_type = ''none'',
                 automaticCategoryId = category,
                 dateImport = DateAt (clock i),
                 dateOperation = DateOf (raw_date operation),
                 currency = currency_code operation,
                 vendorAccountId = operation_account_id operation,
                 transaction_vendorId = operation_id operation,
                 amount = raw_amount operation \<rparr>)
       (List.enumerate 0 operations)"

subsection \<open>The vendor's API\<close>

text \<open>
  The fields of the account of the konnector, and the options of an HTTP request. A value
  of the query string is a string or a number.
\<close>

record fields =
  client_id :: string
  client_secret :: string
  email :: string
  password :: string
  bankinDevice :: string

record request_options =
  url :: string
  qs :: "(string \<times> js_value) list"
  http_method :: string
  headers :: "(string \<times> string) list"

definition baseUrl :: string where
  "baseUrl = ''https://sync.bankin.com/v2''"

definition bankinVersion :: string where
  "bankinVersion = ''2018-06-15''"

text \<open>The messages \<open>errors.LOGIN_FAILED\<close> and \<open>errors.VENDOR_DOWN\<close> of cozy-konnector-libs.\<close>

definition LOGIN_FAILED :: string where
  "LOGIN_FAILED = ''LOGIN_FAILED''"

definition VENDOR_DOWN :: string where
  "VENDOR_DOWN = ''VENDOR_DOWN''"

text \<open>
  Every fetch has the form
  \<^verbatim>\<open>return new Promise(async resolve => { try { ...; resolve(v) } catch (error) { throw new Error(m) } })\<close>.
  The executor is an \<open>async\<close> function: it either calls \<open>resolve\<close>, or throws, or
  waits for ever on the request.
\<close>

datatype 'a executor_run = Resolved 'a | Thrown exn | Never

text \<open>
  \<open>new Promise(executor)\<close> calls the executor and drops what it returns. An \<open>async\<close>
  executor never throws to its caller: what it throws rejects the promise that it returns,
  the one that is dropped. So the new promise is settled by a call of \<open>resolve\<close> only
  (the executors of this module take no \<open>reject\<close>), and an error thrown by the executor
  is left as an unhandled rejection.
\<close>

definition new_Promise :: "'a executor_run \<Rightarrow> 'a promise" where
  "new_Promise run = (case run of Resolved v \<Rightarrow> Fulfilled v | Thrown e \<Rightarrow> Pending | Never \<Rightarrow> Pending)"

definition unhandled_rejection :: "'a executor_run \<Rightarrow> exn option" where
  "unhandled_rejection run = (case run of Resolved v \<Rightarrow> None | Thrown e \<Rightarrow> Some e | Never \<Rightarrow> None)"

text \<open>
  \<open>request\<close> is the HTTP client of cozy-konnector-libs, a parameter of each fetch, typed
  by the body that the endpoint answers with: the tokens for \<open>/authenticate\<close>, and the
  \<open>resources\<close> of the body for the three lists.
\<close>

record tokens =
  access_token :: string

definition authenticate_options :: "fields \<Rightarrow> request_options" where
  "authenticate_options f =
     \<lparr> url = baseUrl @ ''/authenticate'',
       qs = [(''client_id'', JsString (client_id f)),
             (''client_secret'', JsString (client_secret f)),
             (''email'', JsString (email f)),
             (''password'', JsString (password f))],
       http_method = ''POST'',
       headers = [(''bankin-version'', bankinVersion), (''bankin-device'', bankinDevice f)] \<rparr>"

definition authenticate_executor ::
  "(request_options \<Rightarrow> tokens promise) \<Rightarrow> fields \<Rightarrow> tokens executor_run" where
  "authenticate_executor request f =
     (case request (authenticate_options f) of
        Fulfilled response \<Rightarrow> Resolved response
      | Rejected error \<Rightarrow> Thrown (Error LOGIN_FAILED)
      | Pending \<Rightarrow> Never)"

definition authenticate :: "(request_options \<Rightarrow> tokens promise) \<Rightarrow> fields \<Rightarrow> tokens promise" where
  "authenticate request f = new_Promise (authenticate_executor request f)"

definition list_options :: "string \<Rightarrow> (string \<times> string) list \<Rightarrow> fields \<Rightarrow> request_options" where
  "list_options u hs f =
     \<lparr> url = u,
       qs = [(''client_id'', JsString (client_id f)),
             (''client_secret'', JsString (client_secret f)),
             (''limit'', JsNumber 200)],
       http_method = ''GET'',
       headers = hs \<rparr>"

definition fetchBanks_executor ::
  "(request_options \<Rightarrow> country list promise) \<Rightarrow> fields \<Rightarrow> (int \<rightharpoonup> bank) executor_run" where
  "fetchBanks_executor request f =
     (case request (list_options (baseUrl @ ''/banks'') [(''bankin-version'', bankinVersion)] f) of
        Fulfilled resources \<Rightarrow> Resolved (formatBanks resources)
      | Rejected error \<Rightarrow> Thrown (Error VENDOR_DOWN)
      | Pending \<Rightarrow> Never)"

definition fetchBanks ::
  "(request_options \<Rightarrow> country list promise) \<Rightarrow> fields \<Rightarrow> (int \<rightharpoonup> bank) promise" where
  "fetchBanks request f = new_Promise (fetchBanks_executor request f)"

text \<open>
  The module variable \<open>accesToken\<close> is a parameter of the two fetches that read it.
\<close>

definition bearer :: "string \<Rightarrow> (string \<times> string) list" where
  "bearer accesToken =
     [(''bankin-version'', bankinVersion), (''authorization'', ''Bearer '' @ accesToken)]"

definition fetchAccounts_executor ::
  "(request_options \<Rightarrow> raw_account list promise) \<Rightarrow> string \<Rightarrow> (int \<rightharpoonup> bank) \<Rightarrow>
   (string \<rightharpoonup> string) \<Rightarrow> fields \<Rightarrow> account list executor_run" where
  "fetchAccounts_executor request accesToken banks accountTypeMapping f =
     (case request (list_options (baseUrl @ ''/accounts'') (bearer accesToken) f) of
        Fulfilled resources \<Rightarrow> Resolved (formatAccounts banks accountTypeMapping resources)
      | Rejected error \<Rightarrow> Thrown (Error VENDOR_DOWN)
      | Pending \<Rightarrow> Never)"

definition fetchAccounts ::
  "(request_options \<Rightarrow> raw_account list promise) \<Rightarrow> string \<Rightarrow> (int \<rightharpoonup> bank) \<Rightarrow>
   (string \<rightharpoonup> string) \<Rightarrow> fields \<Rightarrow> account list promise" where
  "fetchAccounts request accesToken banks accountTypeMapping f =
     new_Promise (fetchAccounts_executor request accesToken banks accountTypeMapping f)"

text \<open>The decimal digits of a number, for the account's id in the URL.\<close>

fun digits :: "nat \<Rightarrow> string" where
  "digits n =
     (if n < 10 then [char_of (48 + n)] else digits (n div 10) @ [char_of (48 + n mod 10)])"

definition template :: "int \<Rightarrow> string" where
  "template i = (if i < 0 then ''-'' @ digits (nat (- i)) else digits (nat i))"

definition fetchOperations_executor ::
  "(request_options \<Rightarrow> raw_operation list promise) \<Rightarrow> string \<Rightarrow> (int \<rightharpoonup> category_entry) \<Rightarrow>
   (nat \<Rightarrow> nat) \<Rightarrow> fields \<Rightarrow> account \<Rightarrow> transaction list executor_run" where
  "fetchOperations_executor request accesToken operationCategoryMapping clock f a =
     (case request (list_options (baseUrl @ ''/accounts/'' @ template (vendorId a) @ ''/transactions'')
                      (bearer accesToken) f) of
        Fulfilled resources \<Rightarrow> Resolved (formatOperations operationCategoryMapping clock resources)
      | Rejected error \<Rightarrow> Thrown (Error VENDOR_DOWN)
      | Pending \<Rightarrow> Never)"

definition fetchOperations ::
  "(request_options \<Rightarrow> raw_operation list promise) \<Rightarrow> string \<Rightarrow> (int \<rightharpoonup> category_entry) \<Rightarrow>
   (nat \<Rightarrow> nat) \<Rightarrow> fields \<Rightarrow> account \<Rightarrow> transaction list promise" where
  "fetchOperations request accesToken operationCategoryMapping clock f a =
     new_Promise (fetchOperations_executor request accesToken operationCategoryMapping clock f a)"

subsection \<open>The run\<close>

text \<open>
  Everything that \<open>start\<close> calls and does not define: the HTTP client at the four
  endpoints, the two mapping tables, the clock, \<open>reconciliator.save\<close> of cozy-doctypes
  (of whose result \<open>start\<close> reads \<open>accounts\<close>), \<open>cozyClient.data\<close> and
  \<open>updateOrCreate\<close>.
\<close>

record save_result =
  saved_accounts :: "saved_account list"

record 'r world =
  request_tokens :: "request_options \<Rightarrow> tokens promise"
  request_banks :: "request_options \<Rightarrow> country list promise"
  request_accounts :: "request_options \<Rightarrow> raw_account list promise"
  request_operations :: "request_options \<Rightarrow> raw_operation list promise"
  accountTypeMapping :: "string \<rightharpoonup> string"
  operationCategoryMapping :: "int \<rightharpoonup> category_entry"
  new_Date :: "nat \<Rightarrow> nat"
  moment_now :: moment
  reconciliator_save :: "account list \<Rightarrow> transaction list \<Rightarrow> save_result promise"
  cozyClient_data :: cozy_data
  updateOrCreate :: "balance_history list \<Rightarrow> string \<Rightarrow> string list \<Rightarrow> 'r promise"

text \<open>
  The loop \<open>for (let account of accounts)\<close> of \<open>start\<close>, one fetch after the other.
  \<open>new_Date w k\<close> is the time at the evaluation number \<open>k\<close> of \<open>new Date()\<close> in the
  run; there has been one evaluation for each operation gathered so far.
\<close>

fun fetch_each ::
  "'r world \<Rightarrow> string \<Rightarrow> fields \<Rightarrow> account list \<Rightarrow> transaction list \<Rightarrow> transaction list promise" where
  "fetch_each w accesToken f [] allOperations = Fulfilled allOperations"
| "fetch_each w accesToken f (a # accounts) allOperations =
     await (fetchOperations (request_operations w) accesToken (operationCategoryMapping w)
              (\<lambda>i. new_Date w (length allOperations + i)) f a)
       (\<lambda>operations. fetch_each w accesToken f accounts (allOperations @ operations))"

definition start :: "'r world \<Rightarrow> fields \<Rightarrow> unit promise" where
  "start w f =
     await (authenticate (request_tokens w) f)
       (\<lambda>tokens.
          let accesToken = access_token tokens
          in await (fetchBanks (request_banks w) f)
               (\<lambda>banks.
                  await (fetchAccounts (request_accounts w) accesToken banks (accountTypeMapping w) f)
                    (\<lambda>accounts.
                       await (fetch_each w accesToken f accounts [])
                         (\<lambda>allOperations.
                            await (reconciliator_save w accounts allOperations)
                              (\<lambda>saved.
                                 await (fetchBalances (cozyClient_data w) (moment_now w)
                                          (saved_accounts saved))
                                   (\<lambda>balances.
                                      await (saveBalances (updateOrCreate w) balances)
                                        (\<lambda>_. Fulfilled ())))))))"

subsection \<open>Concrete inputs\<close>

text \<open>
  The inputs of the end-to-end scenarios of the spec: a balance history of 2024 for the
  account with storage identifier \<open>S1\<close>, that account with balance 100, and a run on
  2024-06-15; then a run on 2025-01-01 for an account \<open>S2\<close> with balance 50, a
  second document for \<open>(2024, S1)\<close>, a \<open>cozyClient.data\<close> whose query ignores
  its limit, and a world in which every step after the authentication succeeds.
\<close>

definition example_history :: balance_history where
  "example_history =
     \<lparr> doc_id = Some ''H1'', year = 2024, balances = [''2024-01-01'' \<mapsto> 90],
       metadata = \<lparr> version = 1 \<rparr>,
       relationships_account_data = \<lparr> data_id = ''S1'', data_type = ''io.cozy.bank.accounts'' \<rparr> \<rparr>"

definition example_account :: saved_account where
  "example_account = \<lparr> account_id = ''S1'', account_balance = 100 \<rparr>"

definition example_now :: moment where
  "example_now = \<lparr> format_YYYY_MM_DD = ''2024-06-15'', moment_year = 2024 \<rparr>"

definition example_new_year :: moment where
  "example_new_year = \<lparr> format_YYYY_MM_DD = ''2025-01-01'', moment_year = 2025 \<rparr>"

definition example_account_S2 :: saved_account where
  "example_account_S2 = \<lparr> account_id = ''S2'', account_balance = 50 \<rparr>"

definition example_index :: index where
  "example_index =
     \<lparr> index_doctype = ''io.cozy.bank.balancehistories'',
       index_fields = [''year'', ''relationships.account.data._id''] \<rparr>"

definition example_duplicate :: balance_history where
  "example_duplicate = example_history\<lparr> doc_id := Some ''H9'', balances := Map.empty \<rparr>"

definition example_unlimited :: cozy_data where
  "example_unlimited =
     \<lparr> defineIndex = (\<lambda>doctype fields. Fulfilled example_index),
       query = (\<lambda>ix options. Fulfilled [example_history, example_duplicate]) \<rparr>"

definition example_fields :: fields where
  "example_fields =
     \<lparr> client_id = ''id'', client_secret = ''secret'', email = ''user@example.org'',
       password = ''hunter2'', bankinDevice = ''device'' \<rparr>"

definition example_world :: "(request_options \<Rightarrow> tokens promise) \<Rightarrow> unit world" where
  "example_world request =
     \<lparr> request_tokens = request,
       request_banks = (\<lambda>options. Fulfilled []),
       request_accounts =
         (\<lambda>options. if (''authorization'', ''Bearer token-1'') \<in> set (headers options)
                     then Fulfilled [] else Rejected (StatusCodeError 401)),
       request_operations = (\<lambda>options. Fulfilled []),
       accountTypeMapping = Map.empty,
       operationCategoryMapping = Map.empty,
       new_Date = (\<lambda>k. 0),
       moment_now = example_now,
       reconciliator_save = (\<lambda>accounts operations. Fulfilled \<lparr> saved_accounts = [] \<rparr>),
       cozyClient_data = store_data [],
       updateOrCreate = (\<lambda>documents doctype attributes. Fulfilled ()) \<rparr>"

definition example_categories :: "int \<rightharpoonup> category_entry" where
  "example_categories = [1 \<mapsto> \<lparr> cozyCategoryId = JsString ''400110'' \<rparr>]"

definition example_operation :: "int \<Rightarrow> raw_operation" where
  "example_operation c =
     \<lparr> category_id = c, raw_date = ''2024-06-14'', description = ''Bakery'',
       raw_description = ''CB BAKERY 14/06'', currency_code = ''EUR'', operation_account_id = 7,
       operation_id = 42, raw_amount = -3 \<rparr>"

definition example_countries :: "country list" where
  "example_countries =
     [\<lparr> parent_banks = [\<lparr> parent_bank_banks = [\<lparr> bank_id = 5, bank_name = ''Some Bank'' \<rparr>] \<rparr>] \<rparr>]"

definition example_types :: "string \<rightharpoonup> string" where
  "example_types = [''checking'' \<mapsto> ''Checkings'']"

definition example_raw_account :: "int \<Rightarrow> string \<Rightarrow> raw_account" where
  "example_raw_account b t =
     \<lparr> raw_account_name = ''Main'', raw_account_bank_id = b, raw_account_balance = 100,
       raw_account_type = t, raw_account_id = 7 \<rparr>"

section \<open>Properties\<close>

subsection \<open>Promises\<close>

lemma await_simps [simp]:
  "await (Fulfilled v) rest = rest v"
  "await (Rejected e) rest = Rejected e"
  "await Pending rest = Pending"
  by (simp_all add: await_def)

lemma await_Fulfilled_iff:
  "await p rest = Fulfilled v \<longleftrightarrow> (\<exists>x. p = Fulfilled x \<and> rest x = Fulfilled v)"
  by (cases p) auto

lemma fulfilled_values_map_Fulfilled: "fulfilled_values (map Fulfilled vs) = Some vs"
  by (induction vs) auto

lemma fulfilled_values_SomeD: "fulfilled_values ps = Some vs \<Longrightarrow> ps = map Fulfilled vs"
  by (induction ps arbitrary: vs rule: fulfilled_values.induct) (auto split: option.splits)

lemma first_rejection_map_Fulfilled: "first_rejection (map Fulfilled vs) = None"
  by (induction vs) auto

lemma Promise_all_map_Fulfilled: "Promise_all (map Fulfilled vs) = Fulfilled vs"
  by (simp add: Promise_all_def first_rejection_map_Fulfilled fulfilled_values_map_Fulfilled)

lemma Promise_all_Fulfilled_iff:
  "Promise_all ps = Fulfilled vs \<longleftrightarrow> ps = map Fulfilled vs"
proof
  assume "Promise_all ps = Fulfilled vs"
  then have "fulfilled_values ps = Some vs"
    by (auto simp: Promise_all_def split: option.splits)
  then show "ps = map Fulfilled vs" by (rule fulfilled_values_SomeD)
next
  assume "ps = map Fulfilled vs"
  then show "Promise_all ps = Fulfilled vs" by (simp add: Promise_all_map_Fulfilled)
qed

subsection \<open>The balance history merger\<close>

lemma set_balance_twice:
  "set_balance (set_balance h t b) t b = set_balance h t b"
  by (simp add: set_balance_def)

text \<open>
  When \<open>fetchBalances\<close> is fulfilled, its documents are, account by account, the
  document that the lookup gave with today's balance written into it.
\<close>

lemma fetchBalances_Fulfilled:
  assumes "fetchBalances data now accounts = Fulfilled hs"
  shows "list_all2 (\<lambda>a h'. \<exists>h. getBalanceHistory data (moment_year now) (account_id a) = Fulfilled h
            \<and> h' = set_balance h (format_YYYY_MM_DD now) (account_balance a)) accounts hs"
  using assms unfolding fetchBalances_def Let_def Promise_all_Fulfilled_iff
proof (induction accounts arbitrary: hs)
  case Nil
  then show ?case by simp
next
  case (Cons a accounts)
  then show ?case by (cases hs) (auto simp: await_Fulfilled_iff)
qed

lemma fetchBalances_single:
  "getBalanceHistory data (moment_year now) (account_id a) = Fulfilled h \<Longrightarrow>
   fetchBalances data now [a] = Fulfilled [set_balance h (format_YYYY_MM_DD now) (account_balance a)]"
  by (simp add: fetchBalances_def Promise_all_def)

lemma take_1_cases: "take (Suc 0) xs = (case xs of [] \<Rightarrow> [] | x # _ \<Rightarrow> [x])"
  by (cases xs) auto

text \<open>Against the store, the lookup gives the first matching document, or the empty one.\<close>

lemma getBalanceHistory_store:
  "getBalanceHistory (store_data store) y accountId =
     Fulfilled (case filter (matches \<lparr> selector_year = y, selector_account_id = accountId \<rparr>) store of
                  [] \<Rightarrow> getEmptyBalanceHistory y accountId
                | d # _ \<Rightarrow> d)"
  by (simp add: getBalanceHistory_def store_data_def store_query_def take_1_cases split: list.splits)

text \<open>Against the store every lookup answers, so \<open>fetchBalances\<close> is always fulfilled.\<close>

lemma fetchBalances_store:
  "fetchBalances (store_data store) now accounts =
     Fulfilled
       (map (\<lambda>a. set_balance
                    (case filter (matches \<lparr> selector_year = moment_year now,
                                              selector_account_id = account_id a \<rparr>) store of
                       [] \<Rightarrow> getEmptyBalanceHistory (moment_year now) (account_id a)
                     | d # _ \<Rightarrow> d)
                    (format_YYYY_MM_DD now) (account_balance a))
          accounts)"
proof -
  have "map (\<lambda>a. await (getBalanceHistory (store_data store) (moment_year now) (account_id a))
              (\<lambda>history. Fulfilled (set_balance history (format_YYYY_MM_DD now) (account_balance a))))
          accounts
      = map Fulfilled
          (map (\<lambda>a. set_balance
                    (case filter (matches \<lparr> selector_year = moment_year now,
                                              selector_account_id = account_id a \<rparr>) store of
                       [] \<Rightarrow> getEmptyBalanceHistory (moment_year now) (account_id a)
                     | d # _ \<Rightarrow> d)
                    (format_YYYY_MM_DD now) (account_balance a))
             accounts)"
    by (simp add: getBalanceHistory_store)
  then show ?thesis
    unfolding fetchBalances_def Let_def by (simp only: Promise_all_map_Fulfilled)
qed

text \<open>
  Claim C1 (the balance merge is idempotent). Take any document \<open>h\<close> that the lookup of
  a run finds for an account, any balance of the account and any date of the run. The run
  produces \<open>h\<close> with today's entry set to the balance, and setting that entry a second
  time changes nothing. So a second run on the same date and with the same balance, whose
  lookup finds a document \<open>h2\<close> with the \<open>balances\<close> that the first run produced,
  produces \<open>h2\<close> itself: the same \<open>balances\<close> map as after one run.
\<close>

theorem balance_merge_idempotent:
  assumes "getBalanceHistory data (moment_year now) (account_id a) = Fulfilled h"
    and "getBalanceHistory data' (moment_year now) (account_id a) = Fulfilled h2"
    and "balances h2 = balances (set_balance h (format_YYYY_MM_DD now) (account_balance a))"
  shows "fetchBalances data now [a] =
           Fulfilled [set_balance h (format_YYYY_MM_DD now) (account_balance a)]
       \<and> fetchBalances data' now [a] = Fulfilled [h2]
       \<and> set_balance (set_balance h (format_YYYY_MM_DD now) (account_balance a))
            (format_YYYY_MM_DD now) (account_balance a)
         = set_balance h (format_YYYY_MM_DD now) (account_balance a)"
proof -
  from assms(3) have "set_balance h2 (format_YYYY_MM_DD now) (account_balance a) = h2"
    by (simp add: set_balance_def)
  with fetchBalances_single [OF assms(1)] fetchBalances_single [OF assms(2)]
  show ?thesis by (simp add: set_balance_twice)
qed

theorem balance_merge_idempotent_witness:
  "fetchBalances (store_data [example_history]) example_now [example_account] =
     Fulfilled [example_history\<lparr> balances := [''2024-01-01'' \<mapsto> 90, ''2024-06-15'' \<mapsto> 100] \<rparr>]
   \<and> fetchBalances
        (store_data [example_history\<lparr> balances := [''2024-01-01'' \<mapsto> 90, ''2024-06-15'' \<mapsto> 100] \<rparr>])
        example_now [example_account] =
     Fulfilled [example_history\<lparr> balances := [''2024-01-01'' \<mapsto> 90, ''2024-06-15'' \<mapsto> 100] \<rparr>]"
  using balance_merge_idempotent [of "store_data [example_history]" example_now example_account
      example_history
      "store_data [example_history\<lparr> balances := [''2024-01-01'' \<mapsto> 90, ''2024-06-15'' \<mapsto> 100] \<rparr>]"
      "example_history\<lparr> balances := [''2024-01-01'' \<mapsto> 90, ''2024-06-15'' \<mapsto> 100] \<rparr>"]
  by (simp add: getBalanceHistory_store matches_def example_history_def example_account_def
      example_now_def set_balance_def)

text \<open>
  Claim C2 (the frame of the merge). Whenever \<open>fetchBalances\<close> is fulfilled, each of its
  documents comes from the document \<open>h\<close> that the lookup found for the account, and
  differs from it in today's entry of \<open>balances\<close> only: every entry for another date key
  is as in \<open>h\<close> (present with the same value, or absent as before), today's entry is
  the balance of the account, and the identifier, the year, the metadata and the
  relationship are those of \<open>h\<close>.
\<close>

theorem balance_merge_frame:
  assumes "fetchBalances data now accounts = Fulfilled hs"
  shows "list_all2
           (\<lambda>a h'. \<exists>h. getBalanceHistory data (moment_year now) (account_id a) = Fulfilled h
                \<and> (\<forall>d. d \<noteq> format_YYYY_MM_DD now \<longrightarrow> balances h' d = balances h d)
                \<and> balances h' (format_YYYY_MM_DD now) = Some (account_balance a)
                \<and> doc_id h' = doc_id h \<and> year h' = year h \<and> metadata h' = metadata h
                \<and> relationships_account_data h' = relationships_account_data h)
           accounts hs"
  using fetchBalances_Fulfilled [OF assms]
  by (rule list_all2_mono) (auto simp: set_balance_def)

theorem balance_merge_frame_witness:
  "fetchBalances (store_data [example_history]) example_now [example_account] =
     Fulfilled [example_history\<lparr> balances := [''2024-01-01'' \<mapsto> 90, ''2024-06-15'' \<mapsto> 100] \<rparr>]
   \<and> list_all2
        (\<lambda>a h'. \<exists>h. getBalanceHistory (store_data [example_history]) (moment_year example_now)
                       (account_id a) = Fulfilled h
             \<and> (\<forall>d. d \<noteq> format_YYYY_MM_DD example_now \<longrightarrow> balances h' d = balances h d)
             \<and> balances h' (format_YYYY_MM_DD example_now) = Some (account_balance a)
             \<and> doc_id h' = doc_id h \<and> year h' = year h \<and> metadata h' = metadata h
             \<and> relationships_account_data h' = relationships_account_data h)
        [example_account]
        [example_history\<lparr> balances := [''2024-01-01'' \<mapsto> 90, ''2024-06-15'' \<mapsto> 100] \<rparr>]"
proof -
  have run: "fetchBalances (store_data [example_history]) example_now [example_account] =
     Fulfilled [example_history\<lparr> balances := [''2024-01-01'' \<mapsto> 90, ''2024-06-15'' \<mapsto> 100] \<rparr>]"
    by (simp add: fetchBalances_single getBalanceHistory_store matches_def example_history_def
        example_account_def example_now_def set_balance_def)
  from balance_merge_frame [OF run] run show ?thesis by simp
qed

lemma getBalanceHistory_store_year:
  "getBalanceHistory (store_data store) y accountId = Fulfilled h \<Longrightarrow>
   year h = y \<and> (doc_id h = None \<or> h \<in> set store)"
proof -
  assume a: "getBalanceHistory (store_data store) y accountId = Fulfilled h"
  let ?s = "\<lparr> selector_year = y, selector_account_id = accountId \<rparr>"
  show ?thesis
  proof (cases "filter (matches ?s) store")
    case Nil
    with a show ?thesis by (auto simp: getBalanceHistory_store getEmptyBalanceHistory_def)
  next
    case (Cons d rest)
    then have "d \<in> set (filter (matches ?s) store)" by simp
    then have "d \<in> set store" "matches ?s d" by simp_all
    moreover from a Cons have "h = d" by (simp add: getBalanceHistory_store)
    ultimately show ?thesis by (simp add: matches_def)
  qed
qed

lemma upsert_nth:
  assumes "i < length store" and "doc_id d = None \<or> doc_id d \<noteq> doc_id (store ! i)"
  shows "i < length (upsert fresh d store) \<and> upsert fresh d store ! i = store ! i"
  using assms by (auto simp: upsert_def nth_append)

lemma fold_upsert_nth:
  assumes "i < length store"
    and "\<forall>h\<in>set hs. doc_id h = None \<or> doc_id h \<noteq> doc_id (store ! i)"
  shows "i < length (fold (upsert fresh) hs store) \<and> fold (upsert fresh) hs store ! i = store ! i"
  using assms
proof (induction hs arbitrary: store)
  case Nil
  then show ?case by simp
next
  case (Cons h hs)
  from Cons.prems have step: "i < length (upsert fresh h store) \<and> upsert fresh h store ! i = store ! i"
    by (intro upsert_nth) auto
  with Cons.prems have "\<forall>h'\<in>set hs. doc_id h' = None \<or> doc_id h' \<noteq> doc_id (upsert fresh h store ! i)"
    by simp
  with step Cons.IH [of "upsert fresh h store"] show ?case by simp
qed

lemma list_all2_right: "list_all2 P xs ys \<Longrightarrow> y \<in> set ys \<Longrightarrow> \<exists>x. P x y"
  by (induction rule: list_all2_induct) auto

lemma fetchBalances_store_docs:
  assumes "fetchBalances (store_data store) now accounts = Fulfilled hs" and "h' \<in> set hs"
  shows "year h' = moment_year now \<and> (doc_id h' = None \<or> (\<exists>h\<in>set store. year h = moment_year now \<and> doc_id h = doc_id h'))"
proof -
  from list_all2_right [OF fetchBalances_Fulfilled [OF assms(1)] assms(2)]
  obtain a :: saved_account and h where "getBalanceHistory (store_data store) (moment_year now) (account_id a) = Fulfilled h"
    and "h' = set_balance h (format_YYYY_MM_DD now) (account_balance a)"
    by blast
  with getBalanceHistory_store_year [of store "moment_year now" "account_id a" h]
  show ?thesis by (auto simp: set_balance_def)
qed

lemma distinct_doc_id_eq:
  assumes "distinct (map doc_id store)" "i < length store" "h \<in> set store" "doc_id h = doc_id (store ! i)"
  shows "h = store ! i"
proof -
  from assms(3) obtain j where j: "j < length store" "store ! j = h" by (auto simp: in_set_conv_nth)
  with assms have "map doc_id store ! j = map doc_id store ! i" by simp
  moreover have "j < length (map doc_id store)" "i < length (map doc_id store)"
    using j assms(2) by simp_all
  ultimately have "j = i" using assms(1) by (simp only: nth_eq_iff_index_eq)
  with j show ?thesis by simp
qed

lemma upsert_new:
  "doc_id d = None \<Longrightarrow> store_updateOrCreate fresh [d] store = store @ [d\<lparr> doc_id := Some (fresh store) \<rparr>]"
  by (simp add: store_updateOrCreate_def upsert_def)

text \<open>
  Claim C3 (year isolation), against the store as the spec describes it. Every document
  that a run writes to has the year of the run, the lookup having selected on that year.
  A stored document of any other year, the previous one in particular, is the same after
  the run as before it, at the same place in the store, \<open>balances\<close> included. And for
  an account without a document of the year of the run, the run makes a document without
  identifier, which the sink stores as a new document beside the others.
\<close>

theorem year_isolation:
  assumes "distinct (map doc_id store)"
    and "fetchBalances (store_data store) now accounts = Fulfilled hs"
  shows "(\<forall>h\<in>set hs. year h = moment_year now)
       \<and> (\<forall>i<length store. year (store ! i) \<noteq> moment_year now \<longrightarrow>
            i < length (store_updateOrCreate fresh hs store)
            \<and> store_updateOrCreate fresh hs store ! i = store ! i)
       \<and> (\<forall>a :: saved_account.
            filter (matches \<lparr> selector_year = moment_year now, selector_account_id = account_id a \<rparr>)
              store = [] \<longrightarrow>
            (\<exists>new. fetchBalances (store_data store) now [a] = Fulfilled [new]
               \<and> doc_id new = None
               \<and> store_updateOrCreate fresh [new] store = store @ [new\<lparr> doc_id := Some (fresh store) \<rparr>]))"
proof (intro conjI allI impI ballI)
  fix h assume "h \<in> set hs"
  from fetchBalances_store_docs [OF assms(2) this] show "year h = moment_year now" by blast
next
  fix i assume i: "i < length store" "year (store ! i) \<noteq> moment_year now"
  have "\<forall>h\<in>set hs. doc_id h = None \<or> doc_id h \<noteq> doc_id (store ! i)"
  proof
    fix h' assume "h' \<in> set hs"
    from fetchBalances_store_docs [OF assms(2) this]
    consider "doc_id h' = None"
      | h :: balance_history where "h \<in> set store" "year h = moment_year now" "doc_id h = doc_id h'"
      by auto
    then show "doc_id h' = None \<or> doc_id h' \<noteq> doc_id (store ! i)"
    proof cases
      case 1
      then show ?thesis by simp
    next
      case 2
      show ?thesis
      proof (rule disjI2, rule notI)
        assume "doc_id h' = doc_id (store ! i)"
        with 2 distinct_doc_id_eq [OF assms(1) i(1), of h] have "h = store ! i" by simp
        with 2 i show False by simp
      qed
    qed
  qed
  from fold_upsert_nth [OF i(1) this, of fresh]
  show "i < length (store_updateOrCreate fresh hs store)"
    and "store_updateOrCreate fresh hs store ! i = store ! i"
    by (simp_all add: store_updateOrCreate_def)
next
  fix a :: saved_account
  let ?new = "set_balance (getEmptyBalanceHistory (moment_year now) (account_id a))
                (format_YYYY_MM_DD now) (account_balance a)"
  assume "filter (matches \<lparr> selector_year = moment_year now, selector_account_id = account_id a \<rparr>)
            store = []"
  then have "fetchBalances (store_data store) now [a] = Fulfilled [?new]"
    by (simp add: fetchBalances_single getBalanceHistory_store)
  moreover have "doc_id ?new = None"
    by (simp add: set_balance_def getEmptyBalanceHistory_def)
  ultimately show "\<exists>new. fetchBalances (store_data store) now [a] = Fulfilled [new]
               \<and> doc_id new = None
               \<and> store_updateOrCreate fresh [new] store = store @ [new\<lparr> doc_id := Some (fresh store) \<rparr>]"
    by (simp add: upsert_new)
qed

theorem year_isolation_witness:
  "distinct (map doc_id [example_history])
   \<and> fetchBalances (store_data [example_history]) example_new_year [example_account] =
       Fulfilled [\<lparr> doc_id = None, year = 2025, balances = [''2025-01-01'' \<mapsto> 100],
                    metadata = \<lparr> version = 1 \<rparr>,
                    relationships_account_data =
                      \<lparr> data_id = ''S1'', data_type = ''io.cozy.bank.accounts'' \<rparr> \<rparr>]
   \<and> store_updateOrCreate (\<lambda>store. ''H2'')
         [\<lparr> doc_id = None, year = 2025, balances = [''2025-01-01'' \<mapsto> 100],
            metadata = \<lparr> version = 1 \<rparr>,
            relationships_account_data =
              \<lparr> data_id = ''S1'', data_type = ''io.cozy.bank.accounts'' \<rparr> \<rparr>]
         [example_history] ! 0 = example_history
   \<and> store_updateOrCreate (\<lambda>store. ''H2'')
         [\<lparr> doc_id = None, year = 2025, balances = [''2025-01-01'' \<mapsto> 100],
            metadata = \<lparr> version = 1 \<rparr>,
            relationships_account_data =
              \<lparr> data_id = ''S1'', data_type = ''io.cozy.bank.accounts'' \<rparr> \<rparr>]
         [example_history] =
       [example_history,
        \<lparr> doc_id = Some ''H2'', year = 2025, balances = [''2025-01-01'' \<mapsto> 100],
          metadata = \<lparr> version = 1 \<rparr>,
          relationships_account_data =
            \<lparr> data_id = ''S1'', data_type = ''io.cozy.bank.accounts'' \<rparr> \<rparr>]"
proof -
  let ?new = "\<lparr> doc_id = None, year = 2025, balances = [''2025-01-01'' \<mapsto> (100::real)],
                metadata = \<lparr> version = 1 \<rparr>,
                relationships_account_data =
                  \<lparr> data_id = ''S1'', data_type = ''io.cozy.bank.accounts'' \<rparr> \<rparr>"
  have ids: "distinct (map doc_id [example_history])" by simp
  have run: "fetchBalances (store_data [example_history]) example_new_year [example_account] =
               Fulfilled [?new]"
    by (simp add: fetchBalances_single getBalanceHistory_store matches_def example_history_def
        example_account_def example_new_year_def set_balance_def getEmptyBalanceHistory_def)
  have year: "year (example_history) \<noteq> moment_year example_new_year"
    by (simp add: example_history_def example_new_year_def)
  from year_isolation [OF ids run, of "\<lambda>store. ''H2''"] year
  have "store_updateOrCreate (\<lambda>store. ''H2'') [?new] [example_history] ! 0 = example_history"
    by simp
  moreover have "store_updateOrCreate (\<lambda>store. ''H2'') [?new] [example_history] =
      [example_history, ?new\<lparr> doc_id := Some ''H2'' \<rparr>]"
    by (simp add: upsert_new)
  ultimately show ?thesis using ids run by simp
qed

text \<open>
  Claim C4 (create if absent). When the query for \<open>(year, account)\<close> returns no
  document, the lookup gives exactly the literal of \<open>getEmptyBalanceHistory\<close>: no
  identifier, the year, empty \<open>balances\<close>, \<open>metadata.version = 1\<close>, and the
  relationship to the account. After the merge of balance \<open>b\<close> on date \<open>d\<close> the document
  handed to the sink has the year, the single entry \<open>d \<mapsto> b\<close> and version 1, and the sink
  of the spec stores it so, under a new identifier.
\<close>

theorem create_if_absent:
  assumes "defineIndex data ''io.cozy.bank.balancehistories''
             [''year'', ''relationships.account.data._id''] = Fulfilled ix"
    and "query data ix \<lparr> selector = \<lparr> selector_year = moment_year now,
                                       selector_account_id = account_id a \<rparr>,
                         limit = 1 \<rparr> = Fulfilled []"
  shows "getBalanceHistory data (moment_year now) (account_id a) =
           Fulfilled \<lparr> doc_id = None, year = moment_year now, balances = Map.empty,
                       metadata = \<lparr> version = 1 \<rparr>,
                       relationships_account_data =
                         \<lparr> data_id = account_id a, data_type = ''io.cozy.bank.accounts'' \<rparr> \<rparr>
       \<and> fetchBalances data now [a] =
           Fulfilled [\<lparr> doc_id = None, year = moment_year now,
                        balances = [format_YYYY_MM_DD now \<mapsto> account_balance a],
                        metadata = \<lparr> version = 1 \<rparr>,
                        relationships_account_data =
                          \<lparr> data_id = account_id a, data_type = ''io.cozy.bank.accounts'' \<rparr> \<rparr>]
       \<and> store_updateOrCreate fresh
           [\<lparr> doc_id = None, year = moment_year now,
              balances = [format_YYYY_MM_DD now \<mapsto> account_balance a],
              metadata = \<lparr> version = 1 \<rparr>,
              relationships_account_data =
                \<lparr> data_id = account_id a, data_type = ''io.cozy.bank.accounts'' \<rparr> \<rparr>] store =
           store @
           [\<lparr> doc_id = Some (fresh store), year = moment_year now,
              balances = [format_YYYY_MM_DD now \<mapsto> account_balance a],
              metadata = \<lparr> version = 1 \<rparr>,
              relationships_account_data =
                \<lparr> data_id = account_id a, data_type = ''io.cozy.bank.accounts'' \<rparr> \<rparr>]"
proof -
  from assms have lookup: "getBalanceHistory data (moment_year now) (account_id a) =
      Fulfilled (getEmptyBalanceHistory (moment_year now) (account_id a))"
    by (simp add: getBalanceHistory_def)
  from fetchBalances_single [OF lookup] lookup show ?thesis
    by (simp add: getEmptyBalanceHistory_def set_balance_def upsert_new)
qed

theorem create_if_absent_witness:
  "getBalanceHistory (store_data [example_history]) 2025 ''S2'' =
     Fulfilled \<lparr> doc_id = None, year = 2025, balances = Map.empty,
                 metadata = \<lparr> version = 1 \<rparr>,
                 relationships_account_data =
                   \<lparr> data_id = ''S2'', data_type = ''io.cozy.bank.accounts'' \<rparr> \<rparr>
   \<and> fetchBalances (store_data [example_history]) example_new_year [example_account_S2] =
       Fulfilled [\<lparr> doc_id = None, year = 2025, balances = [''2025-01-01'' \<mapsto> 50],
                    metadata = \<lparr> version = 1 \<rparr>,
                    relationships_account_data =
                      \<lparr> data_id = ''S2'', data_type = ''io.cozy.bank.accounts'' \<rparr> \<rparr>]
   \<and> store_updateOrCreate (\<lambda>store. ''H2'')
         [\<lparr> doc_id = None, year = 2025, balances = [''2025-01-01'' \<mapsto> 50],
            metadata = \<lparr> version = 1 \<rparr>,
            relationships_account_data =
              \<lparr> data_id = ''S2'', data_type = ''io.cozy.bank.accounts'' \<rparr> \<rparr>]
         [example_history] =
       [example_history,
        \<lparr> doc_id = Some ''H2'', year = 2025, balances = [''2025-01-01'' \<mapsto> 50],
          metadata = \<lparr> version = 1 \<rparr>,
          relationships_account_data =
            \<lparr> data_id = ''S2'', data_type = ''io.cozy.bank.accounts'' \<rparr> \<rparr>]"
  using create_if_absent [of "store_data [example_history]" example_index example_new_year
      example_account_S2 "\<lambda>store. ''H2''" "[example_history]"]
  by (simp add: store_data_def store_query_def matches_def example_history_def
      example_account_S2_def example_new_year_def example_index_def)

text \<open>
  Claim C5 (the lookup). \<open>getBalanceHistory\<close> makes one query, whose selector equates
  \<open>year\<close> and \<open>relationships.account.data._id\<close> with its two arguments and whose
  \<open>limit\<close> is 1: its result depends on \<open>query\<close> at these options only. Whatever list
  the query returns, one document or several, the result is the first document of the
  list, as it is: the others are neither merged into it nor a cause of failure.
\<close>

theorem lookup_first_result:
  assumes "defineIndex data ''io.cozy.bank.balancehistories''
             [''year'', ''relationships.account.data._id''] = Fulfilled ix"
  shows "(\<forall>d rest.
            query data ix \<lparr> selector = \<lparr> selector_year = y, selector_account_id = accountId \<rparr>,
                            limit = 1 \<rparr> = Fulfilled (d # rest) \<longrightarrow>
            getBalanceHistory data y accountId = Fulfilled d)
       \<and> (\<forall>data'.
            defineIndex data' ''io.cozy.bank.balancehistories''
              [''year'', ''relationships.account.data._id''] = Fulfilled ix
            \<and> query data' ix \<lparr> selector = \<lparr> selector_year = y, selector_account_id = accountId \<rparr>,
                               limit = 1 \<rparr>
              = query data ix \<lparr> selector = \<lparr> selector_year = y, selector_account_id = accountId \<rparr>,
                                limit = 1 \<rparr> \<longrightarrow>
            getBalanceHistory data' y accountId = getBalanceHistory data y accountId)"
  using assms by (simp add: getBalanceHistory_def)

theorem lookup_first_result_witness:
  "defineIndex example_unlimited ''io.cozy.bank.balancehistories''
     [''year'', ''relationships.account.data._id''] = Fulfilled example_index
   \<and> query example_unlimited example_index
       \<lparr> selector = \<lparr> selector_year = 2024, selector_account_id = ''S1'' \<rparr>, limit = 1 \<rparr>
     = Fulfilled [example_history, example_duplicate]
   \<and> getBalanceHistory example_unlimited 2024 ''S1'' = Fulfilled example_history
   \<and> getBalanceHistory (store_data [example_history, example_duplicate]) 2024 ''S1'' =
       Fulfilled example_history"
proof -
  have ix: "defineIndex example_unlimited ''io.cozy.bank.balancehistories''
     [''year'', ''relationships.account.data._id''] = Fulfilled example_index"
    by (simp add: example_unlimited_def)
  have q: "query example_unlimited example_index
       \<lparr> selector = \<lparr> selector_year = 2024, selector_account_id = ''S1'' \<rparr>, limit = 1 \<rparr>
     = Fulfilled [example_history, example_duplicate]"
    by (simp add: example_unlimited_def)
  have ix': "defineIndex (store_data [example_history, example_duplicate])
       ''io.cozy.bank.balancehistories'' [''year'', ''relationships.account.data._id'']
     = Fulfilled example_index"
    by (simp add: store_data_def example_index_def)
  have q': "query (store_data [example_history, example_duplicate]) example_index
       \<lparr> selector = \<lparr> selector_year = 2024, selector_account_id = ''S1'' \<rparr>, limit = 1 \<rparr>
     = Fulfilled [example_history]"
    by (simp add: store_data_def store_query_def matches_def example_history_def
        example_duplicate_def)
  from lookup_first_result [OF ix, of 2024 "''S1''"] q
  have "getBalanceHistory example_unlimited 2024 ''S1'' = Fulfilled example_history" by simp
  moreover from lookup_first_result [OF ix', of 2024 "''S1''"] q'
  have "getBalanceHistory (store_data [example_history, example_duplicate]) 2024 ''S1'' =
       Fulfilled example_history" by simp
  ultimately show ?thesis using ix q by simp
qed


subsection \<open>The normaliser\<close>

text \<open>
  Every transaction that \<open>formatOperations\<close> builds carries a time of the current run
  as \<open>dateImport\<close>, whatever the transaction and whatever was stored before; it is in this
  form that \<open>start\<close> hands the transactions to the reconciliator.
\<close>

lemma formatOperations_length:
  "length (formatOperations table clock operations) = length operations"
  by (simp add: formatOperations_def)

lemma formatOperations_dateImport:
  "i < length operations \<Longrightarrow>
   dateImport (formatOperations table clock operations ! i) = DateAt (clock i)"
  by (simp add: formatOperations_def nth_enumerate_eq)

text \<open>
  Claim C6 (category fallback). For the transaction at any position of the list: when its
  category id has no entry in the table, \<open>automaticCategoryId\<close> is the number 0; when
  it has an entry, \<open>automaticCategoryId\<close> is the \<open>cozyCategoryId\<close> of that entry; so,
  the entries of the table having a \<open>cozyCategoryId\<close>, it is never \<open>undefined\<close>.
\<close>

theorem category_fallback:
  assumes "i < length operations"
  shows "(table (category_id (operations ! i)) = None \<longrightarrow>
            automaticCategoryId (formatOperations table clock operations ! i) = JsNumber 0)
       \<and> (\<forall>entry. table (category_id (operations ! i)) = Some entry \<longrightarrow>
            automaticCategoryId (formatOperations table clock operations ! i) = cozyCategoryId entry)
       \<and> ((\<forall>k entry. table k = Some entry \<longrightarrow> cozyCategoryId entry \<noteq> JsUndefined) \<longrightarrow>
            automaticCategoryId (formatOperations table clock operations ! i) \<noteq> JsUndefined)"
  using assms by (auto simp: formatOperations_def nth_enumerate_eq split: option.splits)

theorem category_fallback_witness:
  "automaticCategoryId
     (formatOperations example_categories (\<lambda>i. 0) [example_operation 1, example_operation 999] ! 1)
     = JsNumber 0
   \<and> automaticCategoryId
     (formatOperations example_categories (\<lambda>i. 0) [example_operation 1, example_operation 999] ! 0)
     = JsString ''400110''
   \<and> automaticCategoryId
     (formatOperations example_categories (\<lambda>i. 0) [example_operation 1, example_operation 999] ! 1)
     \<noteq> JsUndefined"
proof -
  have wf: "\<forall>k entry. example_categories k = Some entry \<longrightarrow> cozyCategoryId entry \<noteq> JsUndefined"
    by (auto simp: example_categories_def split: if_splits)
  have absent: "example_categories (category_id ([example_operation 1, example_operation 999] ! 1)) = None"
    by (simp add: example_categories_def example_operation_def)
  have present: "example_categories (category_id ([example_operation 1, example_operation 999] ! 0))
      = Some \<lparr> cozyCategoryId = JsString ''400110'' \<rparr>"
    by (simp add: example_categories_def example_operation_def)
  from category_fallback [of 1 "[example_operation 1, example_operation 999]" example_categories
      "\<lambda>i. 0"]
    category_fallback [of 0 "[example_operation 1, example_operation 999]" example_categories
      "\<lambda>i. 0"]
    wf absent present
  show ?thesis by simp
qed

text \<open>
  For a type code that is no property name of \<open>Object.prototype\<close> the fallback is as
  intended: without an entry in the table the \<open>type\<close> is the string \<open>none\<close>, with an
  entry it is the entry. For the bank the fallback holds in every case: a bank id that is
  not in the table of banks gives the \<open>institutionLabel\<close> \<open>none\<close>, and one that is
  gives the name of the bank.
\<close>

lemma formatAccounts_fallbacks:
  assumes "i < length accounts"
  shows "(raw_account_type (accounts ! i) \<notin> set Object_prototype \<longrightarrow>
            types (raw_account_type (accounts ! i)) = None \<longrightarrow>
            type (formatAccounts banks types accounts ! i) = TypeName ''none'')
       \<and> (\<forall>t. types (raw_account_type (accounts ! i)) = Some t \<longrightarrow>
            type (formatAccounts banks types accounts ! i) = TypeName t)
       \<and> (banks (raw_account_bank_id (accounts ! i)) = None \<longrightarrow>
            institutionLabel (formatAccounts banks types accounts ! i) = ''none'')
       \<and> (\<forall>b. banks (raw_account_bank_id (accounts ! i)) = Some b \<longrightarrow>
            institutionLabel (formatAccounts banks types accounts ! i) = bank_name b)"
  using assms by (simp add: formatAccounts_def has_property_def get_property_def)

lemma formatAccounts_example:
  "formatAccounts (formatBanks example_countries) example_types
       [example_raw_account 5 ''checking'', example_raw_account 6 ''unknown''] =
     [\<lparr> label = ''Main'', institutionLabel = ''Some Bank'', balance = 100,
        type = TypeName ''Checkings'', number = 7, vendorId = 7 \<rparr>,
      \<lparr> label = ''Main'', institutionLabel = ''none'', balance = 100,
        type = TypeName ''none'', number = 7, vendorId = 7 \<rparr>]"
  by (simp add: formatAccounts_def formatBanks_def example_countries_def example_types_def
      example_raw_account_def has_property_def get_property_def Object_prototype_def)

text \<open>
  Claim C10 (account fallbacks) fails on the code for the type. The type code
  \<open>toString\<close> has no entry in the table whose only entry is \<open>checking\<close>, yet
  \<open>'toString' in table\<close> holds, by inheritance: \<open>formatAccounts\<close> takes the branch of
  the table, and the \<open>type\<close> of the normalised account is the inherited function, not
  the string \<open>none\<close>.
\<close>

theorem account_type_inherited:
  "example_types ''toString'' = None
   \<and> type (formatAccounts (formatBanks example_countries) example_types
             [example_raw_account 5 ''toString''] ! 0) = Inherited ''toString''
   \<and> type (formatAccounts (formatBanks example_countries) example_types
             [example_raw_account 5 ''toString''] ! 0) \<noteq> TypeName ''none''"
  by (simp add: formatAccounts_def example_types_def example_raw_account_def has_property_def
      get_property_def Object_prototype_def)

subsection \<open>Authentication\<close>

lemma request_tokens_example_world: "request_tokens (example_world request) = request"
  by (simp add: example_world_def)

lemma authenticate_cases:
  "authenticate request f =
     (case request (authenticate_options f) of Fulfilled r \<Rightarrow> Fulfilled r | Rejected e \<Rightarrow> Pending
      | Pending \<Rightarrow> Pending)"
  by (simp add: authenticate_def authenticate_executor_def new_Promise_def split: promise.splits)

text \<open>
  Claim C7, as amended. When the authentication request succeeds, \<open>authenticate\<close> is
  fulfilled with the answer of the vendor, which carries the access token. When the
  request fails, whatever the failure (rejected credentials, another status, the
  transport), the error raised is \<open>LOGIN_FAILED\<close>, \<open>authenticate\<close> is not fulfilled,
  and the run goes no further: it does not complete, and nothing of the later steps has
  any effect on it.
\<close>

theorem authenticate_outcomes:
  "(\<forall>r. request_tokens w (authenticate_options f) = Fulfilled r \<longrightarrow>
      authenticate (request_tokens w) f = Fulfilled r
      \<and> unhandled_rejection (authenticate_executor (request_tokens w) f) = None)
   \<and> (\<forall>e. request_tokens w (authenticate_options f) = Rejected e \<longrightarrow>
      unhandled_rejection (authenticate_executor (request_tokens w) f) = Some (Error LOGIN_FAILED)
      \<and> (\<forall>r. authenticate (request_tokens w) f \<noteq> Fulfilled r)
      \<and> start w f \<noteq> Fulfilled ()
      \<and> (\<forall>w'. request_tokens w' = request_tokens w \<longrightarrow> start w' f = start w f))"
  by (auto simp: authenticate_cases authenticate_executor_def unhandled_rejection_def start_def)

theorem authenticate_outcomes_witness:
  "authenticate (\<lambda>options. Fulfilled \<lparr> access_token = ''token-1'' \<rparr>) example_fields =
     Fulfilled \<lparr> access_token = ''token-1'' \<rparr>
   \<and> start (example_world (\<lambda>options. Fulfilled \<lparr> access_token = ''token-1'' \<rparr>)) example_fields =
       Fulfilled ()
   \<and> unhandled_rejection
       (authenticate_executor (\<lambda>options. Rejected (RequestError ''ETIMEDOUT'')) example_fields) =
       Some (Error LOGIN_FAILED)
   \<and> start (example_world (\<lambda>options. Rejected (RequestError ''ETIMEDOUT''))) example_fields \<noteq>
       Fulfilled ()"
proof -
  have ok: "request_tokens (example_world (\<lambda>options. Fulfilled \<lparr> access_token = ''token-1'' \<rparr>))
      (authenticate_options example_fields) = Fulfilled \<lparr> access_token = ''token-1'' \<rparr>"
    by (simp add: example_world_def)
  have ko: "request_tokens (example_world (\<lambda>options. Rejected (RequestError ''ETIMEDOUT'')))
      (authenticate_options example_fields) = Rejected (RequestError ''ETIMEDOUT'')"
    by (simp add: example_world_def)
  have run: "start (example_world (\<lambda>options. Fulfilled \<lparr> access_token = ''token-1'' \<rparr>))
      example_fields = Fulfilled ()"
    by (simp add: start_def authenticate_cases example_world_def fetchBanks_def
        fetchBanks_executor_def fetchAccounts_def fetchAccounts_executor_def new_Promise_def
        list_options_def bearer_def formatAccounts_def fetchBalances_def Promise_all_def
        saveBalances_def)
  from authenticate_outcomes
    [of "example_world (\<lambda>options. Fulfilled \<lparr> access_token = ''token-1'' \<rparr>)" example_fields] ok
  have "authenticate (request_tokens (example_world (\<lambda>options. Fulfilled \<lparr> access_token = ''token-1'' \<rparr>)))
      example_fields = Fulfilled \<lparr> access_token = ''token-1'' \<rparr>"
    by blast
  moreover from authenticate_outcomes
    [of "example_world (\<lambda>options. Rejected (RequestError ''ETIMEDOUT''))" example_fields] ko
  have "unhandled_rejection
       (authenticate_executor
          (request_tokens (example_world (\<lambda>options. Rejected (RequestError ''ETIMEDOUT''))))
          example_fields) = Some (Error LOGIN_FAILED)
     \<and> start (example_world (\<lambda>options. Rejected (RequestError ''ETIMEDOUT''))) example_fields \<noteq>
       Fulfilled ()"
    by blast
  ultimately show ?thesis using run by (simp add: request_tokens_example_world)
qed

text \<open>
  Claim C7 as stated fails. With credentials that the vendor rejects (status 401) the
  promise of \<open>authenticate\<close> is not rejected with \<open>LOGIN_FAILED\<close>, and neither is the
  run; and a transport failure, which is no rejection of the credentials, raises the
  same \<open>LOGIN_FAILED\<close> as rejected credentials do.
\<close>

theorem authenticate_counterexample:
  "authenticate (\<lambda>options. Rejected (StatusCodeError 401)) example_fields \<noteq>
     Rejected (Error LOGIN_FAILED)
   \<and> start (example_world (\<lambda>options. Rejected (StatusCodeError 401))) example_fields \<noteq>
       Rejected (Error LOGIN_FAILED)
   \<and> unhandled_rejection
       (authenticate_executor (\<lambda>options. Rejected (RequestError ''ETIMEDOUT'')) example_fields) =
     unhandled_rejection
       (authenticate_executor (\<lambda>options. Rejected (StatusCodeError 401)) example_fields)"
  by (simp add: authenticate_cases start_def example_world_def authenticate_executor_def)

end
